theory Spec2Isabelle
  imports Complex_Main "HOL-Library.Word"
begin

section \<open>The computation graph built by nn\_ops\_rkz.cc\<close>

text \<open>
  Every function of \<^verbatim>\<open>nn_ops_rkz.cc\<close> adds nodes to a graph through a \<^verbatim>\<open>Scope\<close>
  and hands back \<^verbatim>\<open>Output\<close> handles. An \<^verbatim>\<open>Output\<close> is modelled by the expression
  that computes it: one constructor of \<open>node\<close> per primitive the file calls, whose
  arguments are the operands in the order of the C++ call. The data flow of the graph is
  kept exactly; the numbering of the nodes is not (C++ leaves the order in which sibling
  arguments are evaluated open, so the source does not fix it either). A name is kept
  where the source asks for one with \<^verbatim>\<open>scope.WithOpName\<close>. The constructors of the
  layers and networks, which create and initialize the variables, are not modelled: a
  \<open>Build\<close> function takes the variables its object owns as a record of handles.

  Values of type \<^verbatim>\<open>float\<close> are modelled by \<open>real\<close>: arithmetic on them is exact here,
  rounding is not modelled. The literals \<^verbatim>\<open>0.3f\<close> and \<^verbatim>\<open>0.001f\<close> are the rationals
  \<open>3/10\<close> and \<open>1/1000\<close>. The one conversion written out with its rounding is that of
  the \<^verbatim>\<open>int\<close> of \<open>Dropout\<close> to \<^verbatim>\<open>float\<close>.
\<close>

datatype DataType = DT_FLOAT | DT_INT32 | DT_INT64

text \<open>The three outputs of the fused primitive that the file reads.\<close>

datatype fbn_output = Out_y | Out_batch_mean | Out_batch_variance

datatype node =
    Handle string
    \<comment> \<open>an \<^verbatim>\<open>Input\<close> handed in by the caller, or a variable owned by a layer\<close>
  | ConstScalar real
    \<comment> \<open>\<^verbatim>\<open>Const<float>(scope, v)\<close> and \<^verbatim>\<open>Const<float>(scope, v, {})\<close>: shape \<open>[]\<close>\<close>
  | ConstVec "real list"
    \<comment> \<open>\<^verbatim>\<open>Const<float>(scope, {v, ...})\<close>: a vector\<close>
  | ConstInts "int list"
    \<comment> \<open>an integer vector: \<^verbatim>\<open>Const<int>\<close>, and an initializer list converted to \<^verbatim>\<open>Input\<close>\<close>
  | Named string node
    \<comment> \<open>the node was added under \<^verbatim>\<open>scope.WithOpName(name)\<close>\<close>
  | Add node node
  | Sub node node
  | Multiply node node
  | Div node node
  | Rsqrt node
  | Floor node
  | Cast node DataType
  | Shape node
  | RandomUniform node DataType
  | RandomNormal node DataType
  | ReduceMean node node bool
    \<comment> \<open>input, axes, \<^verbatim>\<open>KeepDims\<close>\<close>
  | StopGradient node
  | SquaredDifference node node
  | Squeeze node "int list"
    \<comment> \<open>input, \<^verbatim>\<open>Squeeze::Axis\<close>\<close>
  | AssignSub node node
    \<comment> \<open>reference, value\<close>
  | FusedBatchNorm fbn_output node node node node node real bool
    \<comment> \<open>output read, x, scale, offset, mean, variance, \<^verbatim>\<open>Epsilon\<close>, \<^verbatim>\<open>IsTraining\<close>\<close>
  | MatMul node node
  | LeakyRelu node real
    \<comment> \<open>features, \<^verbatim>\<open>Alpha\<close>\<close>
  | Reshape node node
  | Conv2D node node "int list" string
    \<comment> \<open>input, filter, strides, padding\<close>
  | Conv2DBackpropInput node node node "int list" string
    \<comment> \<open>input sizes, filter, out\_backprop, strides, padding\<close>
  | BiasAdd node node

subsection \<open>The scope's registry of update operations\<close>

text \<open>
  Modelled from the spec: \<^verbatim>\<open>Scope::AddUpdateOp\<close> is declared outside this file; the
  spec's \<open>registerUpdateOp(node)\<close> "collects side-effecting ops the training step must
  execute". The registry is a list, a registration appends to it.
\<close>

record scope =
  update_ops :: "node list"

definition AddUpdateOp :: "scope \<Rightarrow> node \<Rightarrow> scope" where
  "AddUpdateOp s n = s\<lparr>update_ops := update_ops s @ [n]\<rparr>"

subsection \<open>Constants of util.h\<close>

text \<open>
  \<^verbatim>\<open>MOMENTUM\<close>, \<^verbatim>\<open>NOISE_DIM\<close>, \<^verbatim>\<open>NUM_CHANNELS\<close> and \<^verbatim>\<open>IMAGE_SIZE\<close> are defined in
  \<^verbatim>\<open>util.h\<close>, which is not part of the sources at hand: they are parameters.
\<close>

record constants =
  MOMENTUM :: real
  NOISE_DIM :: int
  NUM_CHANNELS :: int
  IMAGE_SIZE :: int

subsection \<open>Moments\<close>

record Moments_result =
  mean :: node
  variance :: node

definition Moments :: "node \<Rightarrow> int list \<Rightarrow> bool \<Rightarrow> Moments_result" where
  "Moments x axes keep_dims =
     (let m = ReduceMean x (ConstInts axes) True;
          sg = StopGradient m;
          sd = SquaredDifference x sg;
          v = ReduceMean sd (ConstInts axes) True
      in if keep_dims then \<lparr>mean = m, variance = v\<rparr>
         else \<lparr>mean = Squeeze m axes, variance = Squeeze v axes\<rparr>)"

subsection \<open>BatchNormalization\<close>

definition BatchNormalization ::
  "node \<Rightarrow> node \<Rightarrow> node \<Rightarrow> node \<Rightarrow> node \<Rightarrow> node \<Rightarrow> node" where
  "BatchNormalization x mean' variance' offset scale variance_epsilon =
     (let inv = Multiply (Rsqrt (Add variance' variance_epsilon)) scale;
          tmp1 = Multiply x (Cast inv DT_FLOAT);
          tmp2 = Multiply mean' inv
      in Add tmp1 (Cast (Sub offset tmp2) DT_FLOAT))"

subsection \<open>Dropout\<close>

text \<open>
  The parameter is declared \<^verbatim>\<open>const int rate\<close>, a 32-bit integer, and
  \<^verbatim>\<open>float keep_prob = 1 - rate\<close> subtracts integers before the conversion to
  \<^verbatim>\<open>float\<close>. The subtraction is that of 32-bit words: for the rates \<open>-2\<^sup>3\<^sup>1\<close> and
  \<open>-2\<^sup>3\<^sup>1 + 1\<close> the difference does not fit, C++ leaves the result undefined, and the
  word subtraction wraps around as the machine's does.

  The conversion of an \<^verbatim>\<open>int\<close> to \<^verbatim>\<open>float\<close> keeps 24 significant bits and rounds
  to the nearest such value, to the even one of two that are equally near: below
  \<open>2\<^sup>2\<^sup>4\<close> in magnitude it is exact. \<open>excess a\<close> is the number of low bits of \<open>a\<close>
  that do not fit.
\<close>

fun excess :: "nat \<Rightarrow> nat" where
  "excess a = (if a < 2 ^ 24 then 0 else Suc (excess (a div 2)))"

declare excess.simps [simp del]

definition int_to_float :: "int \<Rightarrow> real" where
  "int_to_float n =
     (let a = nat \<bar>n\<bar>;
          u = 2 ^ excess a;
          q = a div u;
          r = a mod u;
          q' = (if u < 2 * r \<or> (2 * r = u \<and> odd q) then q + 1 else q)
      in real_of_int (sgn n) * real (q' * u))"

definition Dropout :: "node \<Rightarrow> 32 word \<Rightarrow> node" where
  "Dropout x rate =
     (let keep_prob = int_to_float (sint (1 - rate));
          random_value5 = RandomUniform (Shape x) DT_FLOAT;
          random_tensor = Add random_value5 (ConstVec [keep_prob]);
          binary_tensor = Floor random_tensor
      in Multiply (Div x (ConstVec [keep_prob])) binary_tensor)"

text \<open>
  A call site that passes a \<^verbatim>\<open>float\<close> for the \<^verbatim>\<open>int\<close> parameter converts it
  implicitly; the conversion of C++ discards the fractional part (it truncates toward
  zero). The truncated value is read as a 32-bit integer; C++ defines the conversion
  only where it fits.
\<close>

definition float_to_int :: "real \<Rightarrow> 32 word" where
  "float_to_int r = word_of_int (if 0 \<le> r then \<lfloor>r\<rfloor> else \<lceil>r\<rceil>)"

subsection \<open>The value of one element\<close>

text \<open>
  Modelled from the spec: the numeric primitives (elementwise add, sub, mul, div, rsqrt,
  floor, cast) belong to the engine and are not part of the sources at hand. Each of them
  works element by element, so the value of one element of a node is a function of the
  values of the matching elements of its operands. \<open>elem \<rho> n\<close> is that value, where
  \<open>\<rho>\<close> gives the element of every other node (a handle, a random draw, a
  reduction, an activation). It is \<open>None\<close> where the exact result is not a real number
  (division by zero, \<open>rsqrt\<close> of a number that is not positive) and for a constant
  vector that is not a single broadcast element.
\<close>

fun binop :: "(real \<Rightarrow> real \<Rightarrow> real) \<Rightarrow> real option \<Rightarrow> real option \<Rightarrow> real option" where
  "binop f (Some a) (Some b) = Some (f a b)"
| "binop f _ _ = None"

fun elem :: "(node \<Rightarrow> real) \<Rightarrow> node \<Rightarrow> real option" where
  "elem \<rho> (ConstScalar r) = Some r"
| "elem \<rho> (ConstVec rs) = (case rs of [r] \<Rightarrow> Some r | _ \<Rightarrow> None)"
| "elem \<rho> (Named name a) = elem \<rho> a"
| "elem \<rho> (Add a b) = binop (+) (elem \<rho> a) (elem \<rho> b)"
| "elem \<rho> (Sub a b) = binop (-) (elem \<rho> a) (elem \<rho> b)"
| "elem \<rho> (Multiply a b) = binop (*) (elem \<rho> a) (elem \<rho> b)"
| "elem \<rho> (Div a b) =
     (if elem \<rho> b = Some 0 then None else binop (/) (elem \<rho> a) (elem \<rho> b))"
| "elem \<rho> (Rsqrt a) =
     (case elem \<rho> a of
        Some v \<Rightarrow> if 0 < v then Some (1 / sqrt v) else None
      | None \<Rightarrow> None)"
| "elem \<rho> (Floor a) = map_option (\<lambda>v. real_of_int \<lfloor>v\<rfloor>) (elem \<rho> a)"
| "elem \<rho> (Cast a t) = (if t = DT_FLOAT then elem \<rho> a else None)"
| "elem \<rho> (StopGradient a) = elem \<rho> a"
| "elem \<rho> n = Some (\<rho> n)"

subsection \<open>What an update assignment does to one element\<close>

text \<open>
  Modelled from the spec: \<^verbatim>\<open>AssignSub\<close> is a primitive of the engine, not part of the
  sources at hand; the spec writes the update as \<open>movingMean -= ...\<close>. Running the node
  stores, in the variable it refers to, the variable's element minus the value's.
  \<open>assigned \<rho> n\<close> is the variable written and its new element.
\<close>

fun assigned :: "(node \<Rightarrow> real) \<Rightarrow> node \<Rightarrow> (node \<times> real) option" where
  "assigned \<rho> (Named name a) = assigned \<rho> a"
| "assigned \<rho> (AssignSub ref val) = map_option (\<lambda>v. (ref, \<rho> ref - v)) (elem \<rho> val)"
| "assigned \<rho> n = None"

subsection \<open>The two normalization layers\<close>

text \<open>
  \<^verbatim>\<open>TFBatchNormalization\<close> and \<^verbatim>\<open>TFFusedBatchNorm\<close> own the same four variables,
  created by their constructors; \<open>Build\<close> reads them.
\<close>

record NormalizationState =
  moving_mean :: node
  moving_variance :: node
  gamma :: node
  beta :: node

definition TFBatchNormalization_Build ::
  "constants \<Rightarrow> NormalizationState \<Rightarrow> scope \<Rightarrow> node \<Rightarrow> int list \<Rightarrow> node \<Rightarrow> bool
     \<Rightarrow> node \<times> scope" where
  "TFBatchNormalization_Build c this s x axes variance_epsilon training =
     (if training then
        (let moments = Moments x axes False;
             mean' = mean moments;
             variance' = variance moments;
             decay = ConstScalar (1 - MOMENTUM c);
             update_delta1 = Multiply (Sub (moving_mean this) mean') decay;
             update_moving_mean =
               Named ''update_moving_mean'' (AssignSub (moving_mean this) update_delta1);
             s1 = AddUpdateOp s update_moving_mean;
             update_delta2 = Multiply (Sub (moving_variance this) variance') decay;
             update_moving_variance =
               Named ''update_moving_variance''
                 (AssignSub (moving_variance this) update_delta2);
             s2 = AddUpdateOp s1 update_moving_variance
         in (BatchNormalization x mean' variance' (beta this) (gamma this) variance_epsilon,
             s2))
      else
        (BatchNormalization x (moving_mean this) (moving_variance this) (beta this)
           (gamma this) variance_epsilon, s))"

text \<open>
  Modelled from the spec: the attributes of the fused primitive are declared by the
  engine. \<^verbatim>\<open>FusedBatchNorm::Epsilon(e)\<close> alone leaves the primitive in training mode
  (it "computes batch mean/variance"); \<^verbatim>\<open>.IsTraining(false)\<close> makes it consume "the
  supplied moving statistics". \<^verbatim>\<open>Const<float>(scope, {})\<close> is the empty vector.
\<close>

definition TFFusedBatchNorm_Build ::
  "constants \<Rightarrow> NormalizationState \<Rightarrow> scope \<Rightarrow> node \<Rightarrow> real \<Rightarrow> bool \<Rightarrow> node \<times> scope" where
  "TFFusedBatchNorm_Build c this s x variance_epsilon training =
     (if training then
        (let mean' = ConstVec [];
             variance' = ConstVec [];
             fused_batch_norm =
               (\<lambda>out. FusedBatchNorm out x (gamma this) (beta this) mean' variance'
                         variance_epsilon True);
             decay = ConstScalar (1 - MOMENTUM c);
             update_delta1 =
               Multiply (Sub (moving_mean this) (fused_batch_norm Out_batch_mean)) decay;
             update_moving_mean =
               Named ''fused_update_moving_mean''
                 (AssignSub (moving_mean this) update_delta1);
             s1 = AddUpdateOp s update_moving_mean;
             update_delta2 =
               Multiply (Sub (moving_variance this) (fused_batch_norm Out_batch_variance))
                 decay;
             update_moving_variance =
               Named ''fused_update_moving_variance''
                 (AssignSub (moving_variance this) update_delta2);
             s2 = AddUpdateOp s1 update_moving_variance
         in (fused_batch_norm Out_y, s2))
      else
        (let mean' = moving_mean this;
             variance' = moving_variance this
         in (FusedBatchNorm Out_y x (gamma this) (beta this) mean' variance'
               variance_epsilon False, s)))"

subsection \<open>GlorotUniform\<close>

text \<open>
  The function checks nothing: it reads \<^verbatim>\<open>shape_vec[0]\<close> and \<^verbatim>\<open>shape_vec[1]\<close> of a
  \<^verbatim>\<open>std::vector\<close> whatever its size. With fewer than two entries that read is out of
  bounds and the behaviour of the program is undefined: the model has \<open>None\<close> there,
  which stands for "no defined result", not for a reported error.
\<close>

definition GlorotUniform :: "int list \<Rightarrow> node option" where
  "GlorotUniform shape =
     (let random_value = RandomUniform (ConstInts shape) DT_FLOAT;
          shape_vec = shape
      in if length shape_vec < 2 then None
         else
           (let fan_in = real_of_int (shape_vec ! 0);
                fan_out = real_of_int (shape_vec ! 1);
                receptive_field_size =
                  1 * real_of_int (shape_vec ! 0) * real_of_int (shape_vec ! 1);
                fan_in = (if length shape_vec = 4
                          then receptive_field_size * real_of_int (shape_vec ! 2)
                          else fan_in);
                fan_out = (if length shape_vec = 4
                           then receptive_field_size * real_of_int (shape_vec ! 3)
                           else fan_out);
                scale = 1 / max 1 ((fan_in + fan_out) / 2);
                limit = sqrt (3 * scale);
                maxval = limit;
                minval = - limit
            in Some (Add (Multiply random_value (ConstScalar (maxval - minval)))
                         (ConstScalar minval))))"

subsection \<open>Conv2DTranspose\<close>

definition Conv2DTranspose :: "node \<Rightarrow> node \<Rightarrow> node \<Rightarrow> int list \<Rightarrow> string \<Rightarrow> node" where
  "Conv2DTranspose input_sizes filter' out_backprop strides padding =
     Conv2DBackpropInput input_sizes filter' out_backprop strides padding"

text \<open>
  Modelled from the spec: the shape of what the convolution-input-gradient primitive
  returns is decided by the engine; the spec defines the primitive as taking "the desired
  output spatial shape", its first operand. A name does not change a shape.
\<close>

fun output_shape :: "node \<Rightarrow> int list option" where
  "output_shape (Named name a) = output_shape a"
| "output_shape (Conv2DBackpropInput (ConstInts sizes) f g strides padding) = Some sizes"
| "output_shape n = None"

subsection \<open>Generator\<close>

record Generator =
  w1 :: node
  filter0 :: node
  filter2 :: node
  filter3 :: node
  batchnorm_op :: NormalizationState
  batchnorm1_op :: NormalizationState
  batchnorm2_op :: NormalizationState

text \<open>
  \<^verbatim>\<open>offset2\<close> and \<^verbatim>\<open>scale2\<close> of the source are two \<^verbatim>\<open>BroadcastTo\<close> nodes that nothing
  reads; they are no part of the data flow and are left out.
\<close>

definition Generator_Build ::
  "constants \<Rightarrow> Generator \<Rightarrow> scope \<Rightarrow> int \<Rightarrow> bool \<Rightarrow> node \<times> scope" where
  "Generator_Build c this s batch_size training =
     (let noise = RandomNormal (ConstInts [batch_size, NOISE_DIM c]) DT_FLOAT;
          dense = MatMul noise (w1 this);
          variance_epsilon = ConstVec [1 / 1000];
          (batchnorm, s1) =
            TFBatchNormalization_Build c (batchnorm_op this) s dense [0] variance_epsilon
              training;
          leakyrelu = LeakyRelu batchnorm (3 / 10);
          reshape1 = Reshape leakyrelu (ConstInts [batch_size, 7, 7, 256]);
          input_sizes = ConstInts [batch_size, 7, 7, 128];
          deconv1 =
            Conv2DTranspose input_sizes (filter0 this) reshape1 [1, 1, 1, 1] ''SAME'';
          (batchnorm1, s2) =
            TFFusedBatchNorm_Build c (batchnorm1_op this) s1 deconv1 (1 / 1000) training;
          leakyrelu1 = LeakyRelu batchnorm1 (3 / 10);
          input_sizes2 = ConstInts [batch_size, 14, 14, 64];
          deconv2 =
            Conv2DTranspose input_sizes2 (filter2 this) leakyrelu1 [1, 2, 2, 1] ''SAME'';
          (batchnorm2, s3) =
            TFFusedBatchNorm_Build c (batchnorm2_op this) s2 deconv2 (1 / 1000) training;
          leakyrelu2 = LeakyRelu batchnorm2 (3 / 10);
          input_sizes3 = ConstInts [batch_size, 28, 28, NUM_CHANNELS c];
          output =
            Named ''generator''
              (Conv2DTranspose input_sizes3 (filter3 this) leakyrelu2 [1, 2, 2, 1] ''SAME'')
      in (output, s3))"

subsection \<open>Discriminator\<close>

record Discriminator =
  conv1_weights :: node
  conv1_biases :: node
  conv2_weights :: node
  conv2_biases :: node
  fc1_weights :: node
  fc1_biases :: node

text \<open>Division of \<^verbatim>\<open>int\<close> by \<^verbatim>\<open>int\<close> in C++ truncates toward zero.\<close>

definition int_div :: "int \<Rightarrow> int \<Rightarrow> int" where
  "int_div a b = sgn a * sgn b * (\<bar>a\<bar> div \<bar>b\<bar>)"

text \<open>
  Both calls \<^verbatim>\<open>Dropout(scope, relu, 0.3f)\<close> pass a \<^verbatim>\<open>float\<close> literal for the
  \<^verbatim>\<open>int\<close> parameter.
\<close>

definition Discriminator_Build :: "constants \<Rightarrow> Discriminator \<Rightarrow> node \<Rightarrow> int \<Rightarrow> node" where
  "Discriminator_Build c this inputs batch_size =
     (let conv2d_1 = Conv2D inputs (conv1_weights this) [1, 2, 2, 1] ''SAME'';
          relu_1 = LeakyRelu (BiasAdd conv2d_1 (conv1_biases this)) (3 / 10);
          dropout_1 = Dropout relu_1 (float_to_int (3 / 10));
          conv2d_2 = Conv2D dropout_1 (conv2_weights this) [1, 2, 2, 1] ''SAME'';
          relu_2 = LeakyRelu (BiasAdd conv2d_2 (conv2_biases this)) (3 / 10);
          dropout_2 = Dropout relu_2 (float_to_int (3 / 10));
          s1 = IMAGE_SIZE c;
          s1 = int_div s1 4;
          s1 = s1 ^ 2 * 128;
          reshape1 = Reshape dropout_2 (ConstInts [batch_size, s1]);
          output =
            Named ''discriminator''
              (BiasAdd (MatMul reshape1 (fc1_weights this)) (fc1_biases this))
      in output)"

subsection \<open>Tensors, for the reductions of Moments\<close>

text \<open>
  Modelled from the spec: \<^verbatim>\<open>ReduceMean\<close>, \<^verbatim>\<open>StopGradient\<close>, \<^verbatim>\<open>SquaredDifference\<close>
  and \<^verbatim>\<open>Squeeze\<close> are primitives of the engine, not part of the sources at hand; the
  spec names them \<open>reduce_mean\<close>, \<open>stop_gradient\<close>, the square of a difference, and
  "squeezed along axes". A tensor is its list of dimensions and the entry at each index
  (a list of positions, one per dimension); entries outside the dimensions do not matter.

  \<^item> An axis \<open>a\<close> of a tensor of rank \<open>n\<close> is valid within \<open>-n \<le> a < n\<close>, a negative
    one counts from the end, and no axis is given twice (\<open>norm_axes\<close>).
  \<^item> \<open>reduce_mean\<close> keeps the reduced dimensions with size 1, as every \<^verbatim>\<open>ReduceMean\<close>
    of the file asks with \<^verbatim>\<open>KeepDims(true)\<close>. An entry of the result is the mean over
    the entries of the input that differ from its index on the reduced axes only
    (\<open>fibre\<close>). It is \<open>None\<close> when a reduced dimension is 0: the mean of no entries is
    no real number.
  \<^item> \<open>squared_difference\<close> broadcasts two tensors of the same rank: a dimension of size
    1 is repeated.
  \<^item> \<open>squeeze\<close> removes the given axes, which must have size 1; with no axis given it
    removes every dimension of size 1.
  \<^item> \<open>stop_gradient\<close> is the identity on values.

  \<open>tval \<tau> n\<close> is the tensor a node evaluates to, where \<open>\<tau>\<close> gives the tensor of
  every node that is none of those four.
\<close>

record tensor =
  dims :: "nat list"
  entry :: "nat list \<Rightarrow> real"

definition indices :: "nat list \<Rightarrow> nat list list" where
  "indices ds = product_lists (map (\<lambda>d. [0..<d]) ds)"

definition norm_axes :: "nat \<Rightarrow> int list \<Rightarrow> nat list option" where
  "norm_axes n axes =
     (let A = map (\<lambda>a. nat (if a < 0 then a + int n else a)) axes
      in if list_all (\<lambda>a. - int n \<le> a \<and> a < int n) axes \<and> distinct A then Some A else None)"

definition fibre :: "nat list \<Rightarrow> nat list \<Rightarrow> nat list \<Rightarrow> nat list list" where
  "fibre ds A j =
     product_lists (map (\<lambda>k. if k \<in> set A then [0..<ds ! k] else [j ! k]) [0..<length ds])"

definition reduce_mean :: "tensor \<Rightarrow> nat list \<Rightarrow> tensor option" where
  "reduce_mean t A =
     (if list_ex (\<lambda>k. dims t ! k = 0) A then None
      else Some \<lparr>dims = map (\<lambda>k. if k \<in> set A then 1 else dims t ! k) [0..<length (dims t)],
                 entry = (\<lambda>j. sum_list (map (entry t) (fibre (dims t) A j))
                                / real (length (fibre (dims t) A j)))\<rparr>)"

definition broadcast_dims :: "nat list \<Rightarrow> nat list \<Rightarrow> nat list option" where
  "broadcast_dims ds es =
     (if length ds = length es \<and> list_all2 (\<lambda>d e. d = e \<or> d = 1 \<or> e = 1) ds es
      then Some (map2 (\<lambda>d e. if d = 1 then e else d) ds es) else None)"

definition broadcast_index :: "nat list \<Rightarrow> nat list \<Rightarrow> nat list" where
  "broadcast_index ds i = map2 (\<lambda>d k. if d = 1 then 0 else k) ds i"

definition squared_difference :: "tensor \<Rightarrow> tensor \<Rightarrow> tensor option" where
  "squared_difference a b =
     (case broadcast_dims (dims a) (dims b) of
        None \<Rightarrow> None
      | Some ds \<Rightarrow>
          Some \<lparr>dims = ds,
                entry = (\<lambda>i. (entry a (broadcast_index (dims a) i)
                               - entry b (broadcast_index (dims b) i))\<^sup>2)\<rparr>)"

definition squeezed :: "nat list \<Rightarrow> nat list \<Rightarrow> nat \<Rightarrow> bool" where
  "squeezed ds A k = (if A = [] then ds ! k = 1 else k \<in> set A)"

definition squeeze :: "tensor \<Rightarrow> nat list \<Rightarrow> tensor option" where
  "squeeze t A =
     (if list_ex (\<lambda>k. dims t ! k \<noteq> 1) A then None
      else Some \<lparr>dims = map (\<lambda>k. dims t ! k)
                          (filter (\<lambda>k. \<not> squeezed (dims t) A k) [0..<length (dims t)]),
                 entry = (\<lambda>j. entry t
                            (map (\<lambda>k. if squeezed (dims t) A k then 0
                                      else j ! length (filter (\<lambda>k'. \<not> squeezed (dims t) A k')
                                                         [0..<k]))
                               [0..<length (dims t)]))\<rparr>)"

fun tval :: "(node \<Rightarrow> tensor option) \<Rightarrow> node \<Rightarrow> tensor option" where
  "tval \<tau> (ReduceMean a (ConstInts axes) keep) =
     (case tval \<tau> a of
        None \<Rightarrow> None
      | Some t \<Rightarrow>
          (case norm_axes (length (dims t)) axes of
             None \<Rightarrow> None
           | Some A \<Rightarrow> if keep then reduce_mean t A else None))"
| "tval \<tau> (StopGradient a) = tval \<tau> a"
| "tval \<tau> (SquaredDifference a b) =
     (case (tval \<tau> a, tval \<tau> b) of
        (Some s, Some t) \<Rightarrow> squared_difference s t
      | _ \<Rightarrow> None)"
| "tval \<tau> (Squeeze a axes) =
     (case tval \<tau> a of
        None \<Rightarrow> None
      | Some t \<Rightarrow>
          (case norm_axes (length (dims t)) axes of
             None \<Rightarrow> None
           | Some A \<Rightarrow> squeeze t A))"
| "tval \<tau> n = \<tau> n"

definition all_entries :: "tensor \<Rightarrow> real \<Rightarrow> bool" where
  "all_entries t c = list_all (\<lambda>i. entry t i = c) (indices (dims t))"

definition nonempty :: "tensor \<Rightarrow> bool" where
  "nonempty t = list_all (\<lambda>d. 0 < d) (dims t)"

section \<open>Theorems\<close>

subsection \<open>Auxiliary facts\<close>

lemma node_neq_Sub_left: "x \<noteq> Sub x y"
proof
  assume "x = Sub x y"
  then have "size x = size (Sub x y)" by simp
  then show False by simp
qed

lemma floor_unit_plus_int: "0 \<le> u \<Longrightarrow> u < 1 \<Longrightarrow> \<lfloor>u + real_of_int k\<rfloor> = k"
  by linarith

lemma float_to_int_fraction: "0 < r \<Longrightarrow> r < 1 \<Longrightarrow> float_to_int r = 0"
proof -
  assume "0 < r" "r < 1"
  then have "\<lfloor>r\<rfloor> = 0" by linarith
  with \<open>0 < r\<close> show ?thesis by (simp add: float_to_int_def)
qed

lemma excess_small: "a < 2 ^ 24 \<Longrightarrow> excess a = 0"
  by (subst excess.simps) simp

lemma excess_step: "\<not> a < 2 ^ 24 \<Longrightarrow> excess a = Suc (excess (a div 2))"
  by (subst excess.simps) simp

lemma int_to_float_exact: "\<bar>n\<bar> < 2 ^ 24 \<Longrightarrow> int_to_float n = real_of_int n"
proof -
  assume "\<bar>n\<bar> < 2 ^ 24"
  then have "nat \<bar>n\<bar> < 2 ^ 24" by (simp add: nat_less_iff)
  then have "excess (nat \<bar>n\<bar>) = 0" by (rule excess_small)
  then have "int_to_float n = real_of_int (sgn n) * real (nat \<bar>n\<bar>)"
    by (simp add: int_to_float_def Let_def)
  also have "\<dots> = real_of_int (sgn n * \<bar>n\<bar>)" by simp
  also have "sgn n * \<bar>n\<bar> = n" by (simp add: sgn_mult_abs)
  finally show ?thesis .
qed

lemma quotient_pos: "0 < a \<Longrightarrow> 0 < a div 2 ^ excess a"
proof (induction a rule: excess.induct)
  case (1 a)
  show ?case
  proof (cases "a < 2 ^ 24")
    case True
    with 1(2) show ?thesis by (simp add: excess_small)
  next
    case False
    then have "0 < a div 2" by simp
    with 1(1) False have "0 < (a div 2) div 2 ^ excess (a div 2)" by simp
    then show ?thesis by (simp add: excess_step [OF False] div_mult2_eq)
  qed
qed

lemma int_to_float_pos: "0 < n \<Longrightarrow> 0 < int_to_float n"
proof -
  assume n: "0 < n"
  then have "0 < nat \<bar>n\<bar>" by simp
  then have "0 < nat \<bar>n\<bar> div 2 ^ excess (nat \<bar>n\<bar>)" by (rule quotient_pos)
  with n show ?thesis
    by (simp add: int_to_float_def Let_def)
qed

lemma int_to_float_nonpos: "n \<le> 0 \<Longrightarrow> int_to_float n \<le> 0"
  unfolding int_to_float_def Let_def
  by (rule mult_nonpos_nonneg) (simp_all add: sgn_if)

lemma sint_one_minus:
  "- (2 ^ 31) + 2 \<le> sint (rate :: 32 word) \<Longrightarrow> sint (1 - rate) = 1 - sint rate"
  using sint_lt [of rate] by (simp add: sint_word_ariths signed_take_bit_int_eq_self_iff)

lemma int_to_float_0_1: "int_to_float 0 = 0" "int_to_float 1 = 1"
  by (simp_all add: int_to_float_exact)

lemma glorot_limit_pos: "0 < sqrt (3 * (1 / max 1 (f :: real)))"
  by (simp add: max_def)

lemma glorot_affine_range:
  assumes "0 \<le> u" "u < 1" "0 \<le> (l::real)"
  shows "- l \<le> u * (l - - l) + - l" "u * (l - - l) + - l \<le> l"
proof -
  have "0 \<le> u * (2 * l)" using assms by simp
  then show "- l \<le> u * (l - - l) + - l" by simp
  have "u * (2 * l) \<le> 1 * (2 * l)"
    using assms by (intro mult_right_mono) simp_all
  then show "u * (l - - l) + - l \<le> l" by simp
qed

subsection \<open>The reference normalization layer\<close>

text \<open>
  C1: a Build call of TFBatchNormalization with training = true takes mean and variance
  from Moments with keep\_dims = false (the mean is the squeezed reduction), and it
  registers exactly two update operations, in this order: the assignments that subtract
  (moving\_mean - mean) * (1 - MOMENTUM) from moving\_mean and
  (moving\_variance - variance) * (1 - MOMENTUM) from moving\_variance. Run on one element,
  they store moving - (moving - batch) * (1 - MOMENTUM). With training = false the layer
  normalizes with moving\_mean and moving\_variance and leaves the scope as it was.
\<close>

theorem TFBatchNormalization_Build_updates:
  "(let mom = Moments x axes False;
        upd = (\<lambda>name moving batch.
                 Named name (AssignSub moving
                   (Multiply (Sub moving batch) (ConstScalar (1 - MOMENTUM c)))))
    in mean mom = Squeeze (ReduceMean x (ConstInts axes) True) axes
     \<and> TFBatchNormalization_Build c L s x axes eps True
         = (BatchNormalization x (mean mom) (variance mom) (beta L) (gamma L) eps,
            s\<lparr>update_ops := update_ops s @
                [upd ''update_moving_mean'' (moving_mean L) (mean mom),
                 upd ''update_moving_variance'' (moving_variance L) (variance mom)]\<rparr>)
     \<and> map (assigned \<rho>)
          (drop (length (update_ops s))
             (update_ops (snd (TFBatchNormalization_Build c
                \<lparr>moving_mean = Handle mm, moving_variance = Handle mv, gamma = g, beta = b\<rparr>
                s x axes eps True))))
        = [Some (Handle mm,
                 \<rho> (Handle mm) - (\<rho> (Handle mm) - \<rho> (mean mom)) * (1 - MOMENTUM c)),
           Some (Handle mv,
                 \<rho> (Handle mv) - (\<rho> (Handle mv) - \<rho> (variance mom)) * (1 - MOMENTUM c))])
   \<and> TFBatchNormalization_Build c L s x axes eps False
       = (BatchNormalization x (moving_mean L) (moving_variance L) (beta L) (gamma L) eps, s)"
  by (simp add: TFBatchNormalization_Build_def Let_def AddUpdateOp_def Moments_def)

subsection \<open>BatchNormalization\<close>

text \<open>
  C2: for every x, mean, variance, offset, scale and epsilon the node builder
  BatchNormalization emits inv = rsqrt(variance + epsilon) * scale and then the sum of
  the product x * inv and the difference offset - mean * inv (each operand of the sum
  cast to float). What it emits is never a sum whose first operand is a product
  (x - mean) * i, whatever i and the second operand are. Element by element, where
  variance + epsilon is positive, the value is x * inv + (offset - mean * inv).
\<close>

theorem BatchNormalization_algebraic_form:
  "BatchNormalization x m v offset scale eps =
     Add (Multiply x (Cast (Multiply (Rsqrt (Add v eps)) scale) DT_FLOAT))
         (Cast (Sub offset (Multiply m (Multiply (Rsqrt (Add v eps)) scale))) DT_FLOAT)
   \<and> BatchNormalization x m v offset scale eps \<noteq> Add (Multiply (Sub x m) i) offset'
   \<and> (elem \<rho> x = Some a \<and> elem \<rho> m = Some b \<and> elem \<rho> v = Some d
        \<and> elem \<rho> offset = Some e \<and> elem \<rho> scale = Some g \<and> elem \<rho> eps = Some h
        \<and> 0 < d + h \<longrightarrow>
      elem \<rho> (BatchNormalization x m v offset scale eps)
        = Some (a * (1 / sqrt (d + h) * g) + (e - b * (1 / sqrt (d + h) * g))))"
  by (simp add: BatchNormalization_def Let_def node_neq_Sub_left)

theorem BatchNormalization_algebraic_form_witness:
  "elem (\<lambda>n. 1) (Handle ''x'') = Some 1 \<and> (0::real) < 1 + 1
   \<and> elem (\<lambda>n. 1) (BatchNormalization (Handle ''x'') (Handle ''mean'') (Handle ''variance'')
        (Handle ''offset'') (Handle ''scale'') (Handle ''epsilon''))
      = Some (1 * (1 / sqrt (1 + 1) * 1) + (1 - 1 * (1 / sqrt (1 + 1) * 1)))"
  using BatchNormalization_algebraic_form
    [where x = "Handle ''x''" and m = "Handle ''mean''" and v = "Handle ''variance''"
       and offset = "Handle ''offset''" and scale = "Handle ''scale''"
       and eps = "Handle ''epsilon''" and \<rho> = "\<lambda>n. 1"
       and a = 1 and b = 1 and d = 1 and e = 1 and g = 1 and h = 1]
  by simp

subsection \<open>Dropout\<close>

text \<open>
  C3: for every x and rate, Dropout computes keepProb = 1 - rate, adds it to a uniform
  draw of the shape of x, floors the sum to a 0/1 mask and emits (x / keepProb) * mask.
  The code at the rate 0.3 that both of its callers pass: the rate arrives as 0, the
  graph emitted carries the constant 1 where the claim has 1 - 0.3, and at the draw 1/10
  the element 5 of the input comes out as 5, where (x / 0.7) * floor(0.1 + 0.7) is 0.
\<close>

theorem Dropout_rate_three_tenths:
  "float_to_int (3 / 10) = 0
   \<and> Dropout (Handle ''x'') (float_to_int (3 / 10))
       = Multiply (Div (Handle ''x'') (ConstVec [1]))
           (Floor (Add (RandomUniform (Shape (Handle ''x'')) DT_FLOAT) (ConstVec [1])))
   \<and> Dropout (Handle ''x'') (float_to_int (3 / 10))
       \<noteq> Multiply (Div (Handle ''x'') (ConstVec [1 - 3 / 10]))
           (Floor (Add (RandomUniform (Shape (Handle ''x'')) DT_FLOAT) (ConstVec [1 - 3 / 10])))
   \<and> elem (\<lambda>n. if n = Handle ''x'' then 5 else 1 / 10)
        (Dropout (Handle ''x'') (float_to_int (3 / 10))) = Some 5
   \<and> elem (\<lambda>n. if n = Handle ''x'' then 5 else 1 / 10)
        (Multiply (Div (Handle ''x'') (ConstVec [1 - 3 / 10]))
           (Floor (Add (RandomUniform (Shape (Handle ''x'')) DT_FLOAT) (ConstVec [1 - 3 / 10]))))
       = Some 0"
proof -
  have lit: "float_to_int (3 / 10) = 0"
    by (rule float_to_int_fraction) simp_all
  show ?thesis
    by (simp add: lit Dropout_def Let_def int_to_float_0_1)
qed

text \<open>
  C4, as stated: the constant added to the uniform draw is the raw rate, so that an
  element is kept with probability rate. At rate = 0 the graph that adds the raw rate is
  not the graph Dropout emits, and the element drawn at 1/2 is kept although the rate
  is 0.
\<close>

theorem Dropout_bias_raw_rate_counterexample:
  "Dropout (Handle ''x'') 0 \<noteq>
     Multiply (Div (Handle ''x'') (ConstVec [1]))
       (Floor (Add (RandomUniform (Shape (Handle ''x'')) DT_FLOAT)
                   (ConstVec [int_to_float (sint (0 :: 32 word))])))
   \<and> elem (\<lambda>n. 1 / 2) (Dropout (Handle ''x'') 0) = Some (1 / 2)"
  by (simp add: Dropout_def Let_def int_to_float_0_1)

text \<open>
  C4, amended: the constant added to the uniform draw before flooring is keepProb, the
  float of 1 - rate, and it is the very constant the input is divided by. Wherever
  1 - rate fits the int it is not the float of the raw rate. Every element of the mask
  is floor(uniform + keepProb).
\<close>

theorem Dropout_bias_is_keep_prob:
  "(let keepProb = ConstVec [int_to_float (sint (1 - rate))];
        uniform = RandomUniform (Shape x) DT_FLOAT
    in Dropout x rate = Multiply (Div x keepProb) (Floor (Add uniform keepProb))
     \<and> (- (2 ^ 31) + 2 \<le> sint rate \<longrightarrow> keepProb \<noteq> ConstVec [int_to_float (sint rate)])
     \<and> elem \<rho> (Floor (Add uniform keepProb))
         = Some (real_of_int \<lfloor>\<rho> uniform + int_to_float (sint (1 - rate))\<rfloor>))"
proof -
  have "int_to_float (sint (1 - rate)) \<noteq> int_to_float (sint rate)"
    if fits: "- (2 ^ 31) + 2 \<le> sint rate"
  proof (cases "0 < sint rate")
    case True
    then have "0 < int_to_float (sint rate)"
      by (rule int_to_float_pos)
    moreover from True have "int_to_float (1 - sint rate) \<le> 0"
      by (intro int_to_float_nonpos) simp
    ultimately show ?thesis
      by (simp add: sint_one_minus [OF fits])
  next
    case False
    then have "int_to_float (sint rate) \<le> 0"
      by (intro int_to_float_nonpos) simp
    moreover from False have "0 < int_to_float (1 - sint rate)"
      by (intro int_to_float_pos) simp
    ultimately show ?thesis
      by (simp add: sint_one_minus [OF fits])
  qed
  then show ?thesis
    by (simp add: Dropout_def Let_def)
qed

theorem Dropout_bias_is_keep_prob_witness:
  "- (2 ^ 31) + 2 \<le> sint (0 :: 32 word)
   \<and> Dropout (Handle ''x'') 0
       = Multiply (Div (Handle ''x'') (ConstVec [1]))
           (Floor (Add (RandomUniform (Shape (Handle ''x'')) DT_FLOAT) (ConstVec [1])))
   \<and> ConstVec [1] \<noteq> ConstVec [int_to_float (sint (0 :: 32 word))]
   \<and> elem (\<lambda>n. 3 / 4)
        (Floor (Add (RandomUniform (Shape (Handle ''x'')) DT_FLOAT) (ConstVec [1])))
       = Some (real_of_int \<lfloor>3 / 4 + 1 :: real\<rfloor>)"
  using Dropout_bias_is_keep_prob [where \<rho> = "\<lambda>n. 3 / 4" and x = "Handle ''x''" and rate = 0]
  by (simp add: Let_def int_to_float_0_1)

text \<open>
  C5: the rate of Dropout is an int. A call that passes a fractional rate r with
  0 < r < 1 passes 0: keepProb is 1, every element of the mask floor(uniform + 1) is 1
  for a draw in [0,1), and every element of the output (x / 1) * 1 is the element of x.
  Both Dropout calls of Discriminator::Build pass 0.3f, so the graph it builds holds
  that identity subgraph twice.
\<close>

theorem Dropout_fractional_rate_is_identity:
  "(0 < r \<and> r < 1 \<longrightarrow>
      float_to_int r = 0
    \<and> Dropout x (float_to_int r)
        = Multiply (Div x (ConstVec [1]))
            (Floor (Add (RandomUniform (Shape x) DT_FLOAT) (ConstVec [1])))
    \<and> (0 \<le> \<rho> (RandomUniform (Shape x) DT_FLOAT) \<and> \<rho> (RandomUniform (Shape x) DT_FLOAT) < 1
         \<and> elem \<rho> x = Some a \<longrightarrow>
       elem \<rho> (Floor (Add (RandomUniform (Shape x) DT_FLOAT) (ConstVec [1]))) = Some 1
       \<and> elem \<rho> (Dropout x (float_to_int r)) = Some a))
   \<and> Discriminator_Build c D inputs batch_size =
       (let identity_on = (\<lambda>y. Multiply (Div y (ConstVec [1]))
                               (Floor (Add (RandomUniform (Shape y) DT_FLOAT) (ConstVec [1]))));
            relu_1 = LeakyRelu (BiasAdd (Conv2D inputs (conv1_weights D) [1, 2, 2, 1] ''SAME'')
                                 (conv1_biases D)) (3 / 10);
            relu_2 = LeakyRelu (BiasAdd (Conv2D (identity_on relu_1) (conv2_weights D)
                                   [1, 2, 2, 1] ''SAME'') (conv2_biases D)) (3 / 10)
        in Named ''discriminator''
             (BiasAdd (MatMul (Reshape (identity_on relu_2)
                                (ConstInts [batch_size, (int_div (IMAGE_SIZE c) 4)\<^sup>2 * 128]))
                         (fc1_weights D)) (fc1_biases D)))"
proof -
  let ?u = "\<rho> (RandomUniform (Shape x) DT_FLOAT)"
  have one: "\<lfloor>?u + 1\<rfloor> = 1" if "0 \<le> ?u" "?u < 1"
    using that by linarith
  have lit: "float_to_int (3 / 10) = 0"
    by (rule float_to_int_fraction) simp_all
  have a: "Discriminator_Build c D inputs batch_size =
       (let identity_on = (\<lambda>y. Multiply (Div y (ConstVec [1]))
                               (Floor (Add (RandomUniform (Shape y) DT_FLOAT) (ConstVec [1]))));
            relu_1 = LeakyRelu (BiasAdd (Conv2D inputs (conv1_weights D) [1, 2, 2, 1] ''SAME'')
                                 (conv1_biases D)) (3 / 10);
            relu_2 = LeakyRelu (BiasAdd (Conv2D (identity_on relu_1) (conv2_weights D)
                                   [1, 2, 2, 1] ''SAME'') (conv2_biases D)) (3 / 10)
        in Named ''discriminator''
             (BiasAdd (MatMul (Reshape (identity_on relu_2)
                                (ConstInts [batch_size, (int_div (IMAGE_SIZE c) 4)\<^sup>2 * 128]))
                         (fc1_weights D)) (fc1_biases D)))"
    by (simp add: Discriminator_Build_def Let_def lit Dropout_def int_to_float_0_1)
  have b: "0 < r \<and> r < 1 \<longrightarrow>
      float_to_int r = 0
    \<and> Dropout x (float_to_int r)
        = Multiply (Div x (ConstVec [1]))
            (Floor (Add (RandomUniform (Shape x) DT_FLOAT) (ConstVec [1])))
    \<and> (0 \<le> ?u \<and> ?u < 1 \<and> elem \<rho> x = Some a \<longrightarrow>
       elem \<rho> (Floor (Add (RandomUniform (Shape x) DT_FLOAT) (ConstVec [1]))) = Some 1
       \<and> elem \<rho> (Dropout x (float_to_int r)) = Some a)"
    using one by (simp add: float_to_int_fraction Dropout_def Let_def int_to_float_0_1)
  from a b show ?thesis by blast
qed

theorem Dropout_fractional_rate_is_identity_witness:
  "(0::real) < 3 / 10 \<and> (3 / 10 :: real) < 1 \<and> float_to_int (3 / 10) = 0
   \<and> (0::real) \<le> 1 / 2 \<and> (1 / 2 :: real) < 1
   \<and> elem (\<lambda>n. 1 / 2) (Handle ''relu'') = Some (1 / 2)
   \<and> elem (\<lambda>n. 1 / 2) (Dropout (Handle ''relu'') (float_to_int (3 / 10))) = Some (1 / 2)"
  using Dropout_fractional_rate_is_identity
    [where r = "3 / 10" and x = "Handle ''relu''" and \<rho> = "\<lambda>n. 1 / 2" and a = "1 / 2"
       and c = "\<lparr>MOMENTUM = 4 / 5, NOISE_DIM = 100, NUM_CHANNELS = 1, IMAGE_SIZE = 28\<rparr>"
       and D = "\<lparr>conv1_weights = Handle ''conv1_weights'',
                 conv1_biases = Handle ''conv1_biases'',
                 conv2_weights = Handle ''conv2_weights'',
                 conv2_biases = Handle ''conv2_biases'',
                 fc1_weights = Handle ''fc1_weights'',
                 fc1_biases = Handle ''fc1_biases''\<rparr>"
       and inputs = "Handle ''inputs''" and batch_size = 4]
  by (simp add: float_to_int_def)

subsection \<open>The fused normalization layer\<close>

text \<open>
  C6: with training = true, the Build of TFFusedBatchNorm returns the output y of the
  fused primitive (run in training mode) and registers two update operations of the
  same form as the reference layer registers: the assignment that subtracts
  (moving - batch) * (1 - MOMENTUM) from moving, where batch is the batch\_mean,
  respectively the batch\_variance, output of the fused primitive. Run on one element
  they store moving - (moving - batch) * (1 - MOMENTUM). With training = false the fused
  primitive gets IsTraining = false, moving\_mean and moving\_variance, and the scope is
  left as it was.
\<close>

theorem TFFusedBatchNorm_Build_updates:
  "(let upd = (\<lambda>name moving batch.
                 Named name (AssignSub moving
                   (Multiply (Sub moving batch) (ConstScalar (1 - MOMENTUM c)))));
        fused = (\<lambda>out. FusedBatchNorm out x (gamma L) (beta L) (ConstVec []) (ConstVec [])
                         eps True);
        mom = Moments x' axes False
    in TFFusedBatchNorm_Build c L s x eps True
         = (fused Out_y,
            s\<lparr>update_ops := update_ops s @
                [upd ''fused_update_moving_mean'' (moving_mean L) (fused Out_batch_mean),
                 upd ''fused_update_moving_variance'' (moving_variance L)
                   (fused Out_batch_variance)]\<rparr>)
     \<and> snd (TFBatchNormalization_Build c L s x' axes eps' True)
         = s\<lparr>update_ops := update_ops s @
                [upd ''update_moving_mean'' (moving_mean L) (mean mom),
                 upd ''update_moving_variance'' (moving_variance L) (variance mom)]\<rparr>)
   \<and> map (assigned \<rho>)
        (drop (length (update_ops s))
           (update_ops (snd (TFFusedBatchNorm_Build c
              \<lparr>moving_mean = Handle mm, moving_variance = Handle mv, gamma = g, beta = b\<rparr>
              s x eps True))))
      = [Some (Handle mm,
               \<rho> (Handle mm)
               - (\<rho> (Handle mm)
                  - \<rho> (FusedBatchNorm Out_batch_mean x g b (ConstVec []) (ConstVec []) eps True))
                 * (1 - MOMENTUM c)),
         Some (Handle mv,
               \<rho> (Handle mv)
               - (\<rho> (Handle mv)
                  - \<rho> (FusedBatchNorm Out_batch_variance x g b (ConstVec []) (ConstVec []) eps
                         True))
                 * (1 - MOMENTUM c))]
   \<and> TFFusedBatchNorm_Build c L s x eps False
       = (FusedBatchNorm Out_y x (gamma L) (beta L) (moving_mean L) (moving_variance L) eps
            False, s)"
  by (simp add: TFFusedBatchNorm_Build_def TFBatchNormalization_Build_def Let_def
      AddUpdateOp_def)

subsection \<open>GlorotUniform\<close>

text \<open>
  C7: for a shape [a, b] GlorotUniform takes fan\_in = a and fan\_out = b, for a shape
  [kh, kw, in, out] it takes fan\_in = kh * kw * in and fan\_out = kh * kw * out; with
  scale = 1 / max(1, (fan\_in + fan\_out) / 2) and limit = sqrt(3 * scale) it emits
  uniform * (maxval - minval) + minval for minval = -limit and maxval = limit, and for a
  uniform draw in [0,1) every element of the output lies within [-limit, limit].
\<close>

theorem GlorotUniform_fans_and_range:
  "(let limit = sqrt (3 * (1 / max 1 ((real_of_int a + real_of_int b) / 2)));
        uniform = RandomUniform (ConstInts [a, b]) DT_FLOAT;
        emitted = Add (Multiply uniform (ConstScalar (limit - - limit))) (ConstScalar (- limit))
    in GlorotUniform [a, b] = Some emitted
     \<and> (0 \<le> \<rho> uniform \<and> \<rho> uniform < 1 \<longrightarrow>
          elem \<rho> emitted = Some (\<rho> uniform * (limit - - limit) + - limit)
          \<and> - limit \<le> \<rho> uniform * (limit - - limit) + - limit
          \<and> \<rho> uniform * (limit - - limit) + - limit \<le> limit))
   \<and> (let fan_in = real_of_int (kh * kw * cin);
           fan_out = real_of_int (kh * kw * cout);
           limit = sqrt (3 * (1 / max 1 ((fan_in + fan_out) / 2)));
           uniform = RandomUniform (ConstInts [kh, kw, cin, cout]) DT_FLOAT;
           emitted = Add (Multiply uniform (ConstScalar (limit - - limit)))
                         (ConstScalar (- limit))
       in GlorotUniform [kh, kw, cin, cout] = Some emitted
        \<and> (0 \<le> \<rho> uniform \<and> \<rho> uniform < 1 \<longrightarrow>
             elem \<rho> emitted = Some (\<rho> uniform * (limit - - limit) + - limit)
             \<and> - limit \<le> \<rho> uniform * (limit - - limit) + - limit
             \<and> \<rho> uniform * (limit - - limit) + - limit \<le> limit))"
proof -
  have g2: "GlorotUniform [a, b]
      = Some (Add (Multiply (RandomUniform (ConstInts [a, b]) DT_FLOAT)
                (ConstScalar (sqrt (3 * (1 / max 1 ((real_of_int a + real_of_int b) / 2)))
                   - - sqrt (3 * (1 / max 1 ((real_of_int a + real_of_int b) / 2))))))
              (ConstScalar (- sqrt (3 * (1 / max 1 ((real_of_int a + real_of_int b) / 2))))))"
    by (simp add: GlorotUniform_def Let_def)
  have g4: "GlorotUniform [kh, kw, cin, cout]
      = Some (Add (Multiply (RandomUniform (ConstInts [kh, kw, cin, cout]) DT_FLOAT)
                (ConstScalar
                   (sqrt (3 * (1 / max 1 ((real_of_int (kh * kw * cin)
                                           + real_of_int (kh * kw * cout)) / 2)))
                    - - sqrt (3 * (1 / max 1 ((real_of_int (kh * kw * cin)
                                           + real_of_int (kh * kw * cout)) / 2))))))
              (ConstScalar
                 (- sqrt (3 * (1 / max 1 ((real_of_int (kh * kw * cin)
                                           + real_of_int (kh * kw * cout)) / 2))))))"
    by (simp add: GlorotUniform_def Let_def)
  show ?thesis
    unfolding Let_def g2 g4
    using glorot_affine_range [OF _ _ less_imp_le [OF glorot_limit_pos]]
    by simp
qed

theorem GlorotUniform_fans_and_range_witness:
  "(0::real) \<le> 1 / 2 \<and> (1 / 2 :: real) < 1
   \<and> GlorotUniform [3, 3]
       = Some (Add (Multiply (RandomUniform (ConstInts [3, 3]) DT_FLOAT) (ConstScalar (1 - - 1)))
                   (ConstScalar (- 1)))
   \<and> elem (\<lambda>n. 1 / 2)
        (Add (Multiply (RandomUniform (ConstInts [3, 3]) DT_FLOAT) (ConstScalar (1 - - 1)))
             (ConstScalar (- 1))) = Some (1 / 2 * (1 - - 1) + - 1)
   \<and> - 1 \<le> (1 / 2 * (1 - - 1) + - 1 :: real) \<and> (1 / 2 * (1 - - 1) + - 1 :: real) \<le> 1
   \<and> GlorotUniform [1, 1, 3, 3]
       = Some (Add (Multiply (RandomUniform (ConstInts [1, 1, 3, 3]) DT_FLOAT)
                      (ConstScalar (1 - - 1)))
                   (ConstScalar (- 1)))"
  using GlorotUniform_fans_and_range
    [where a = 3 and b = 3 and \<rho> = "\<lambda>n. 1 / 2" and kh = 1 and kw = 1 and cin = 3 and cout = 3]
  by (simp add: Let_def)

text \<open>
  C8, as stated: a shape whose rank is neither 2 nor 4 makes GlorotUniform fail. The
  shape [2, 3, 4] has rank 3, and GlorotUniform returns the output node built from
  fan\_in = 2 and fan\_out = 3.
\<close>

theorem GlorotUniform_rank3_counterexample:
  "GlorotUniform [2, 3, 4] =
     Some (Add (Multiply (RandomUniform (ConstInts [2, 3, 4]) DT_FLOAT)
                  (ConstScalar (sqrt (6 / 5) - - sqrt (6 / 5))))
               (ConstScalar (- sqrt (6 / 5))))"
  by (simp add: GlorotUniform_def Let_def)

text \<open>
  C8, amended: GlorotUniform checks no rank and reports no error. For every shape of
  rank at least 2 other than 4 it emits the output of the rank 2 case, with
  fan\_in = shape[0] and fan\_out = shape[1].
\<close>

theorem GlorotUniform_other_ranks_as_rank2:
  "2 \<le> length shape \<and> length shape \<noteq> 4 \<longrightarrow>
     GlorotUniform shape
       = (let fan_in = real_of_int (shape ! 0);
              fan_out = real_of_int (shape ! 1);
              limit = sqrt (3 * (1 / max 1 ((fan_in + fan_out) / 2)))
          in Some (Add (Multiply (RandomUniform (ConstInts shape) DT_FLOAT)
                          (ConstScalar (limit - - limit)))
                       (ConstScalar (- limit))))"
  by (simp add: GlorotUniform_def Let_def)

theorem GlorotUniform_other_ranks_as_rank2_witness:
  "2 \<le> length [1, 2, 3 :: int] \<and> length [1, 2, 3 :: int] \<noteq> 4
   \<and> GlorotUniform [1, 2, 3]
       = Some (Add (Multiply (RandomUniform (ConstInts [1, 2, 3]) DT_FLOAT)
                      (ConstScalar (sqrt 2 - - sqrt 2)))
                   (ConstScalar (- sqrt 2)))"
  using GlorotUniform_other_ranks_as_rank2 [where shape = "[1, 2, 3]"]
  by (simp add: Let_def)

subsection \<open>Moments\<close>

lemma in_indices:
  "i \<in> set (indices ds) \<longleftrightarrow> length i = length ds \<and> (\<forall>k<length ds. i ! k < ds ! k)"
  by (auto simp: indices_def product_lists_set list_all2_conv_all_nth)

lemma in_fibre:
  "i \<in> set (fibre ds A j) \<longleftrightarrow>
     length i = length ds
     \<and> (\<forall>k<length ds. if k \<in> set A then i ! k < ds ! k else i ! k = j ! k)"
  by (auto simp: fibre_def product_lists_set list_all2_conv_all_nth)

lemma product_lists_nonempty: "[] \<notin> set xss \<Longrightarrow> product_lists xss \<noteq> []"
proof (induction xss)
  case Nil
  then show ?case by simp
next
  case (Cons xs xss)
  then obtain x xs' p ps where "xs = x # xs'" "product_lists xss = p # ps"
    by (cases xs; cases "product_lists xss") auto
  then show ?case by simp
qed

lemma fibre_nonempty:
  assumes "\<forall>k\<in>set A. 0 < ds ! k"
  shows "fibre ds A j \<noteq> []"
  unfolding fibre_def
proof (rule product_lists_nonempty)
  show "[] \<notin> set (map (\<lambda>k. if k \<in> set A then [0..<ds ! k] else [j ! k]) [0..<length ds])"
  proof
    assume "[] \<in> set (map (\<lambda>k. if k \<in> set A then [0..<ds ! k] else [j ! k]) [0..<length ds])"
    then obtain k where k: "k \<in> set A" "[] = [0..<ds ! k]"
      by (auto split: if_splits)
    from k(2) [symmetric] have "ds ! k = 0" by simp
    with assms k(1) show False by auto
  qed
qed

lemma sum_list_all_equal:
  assumes "\<forall>x\<in>set xs. f x = (c::real)" "xs \<noteq> []"
  shows "sum_list (map f xs) / real (length xs) = c"
proof -
  have "map f xs = replicate (length xs) c"
    using assms(1) by (simp add: map_replicate_const [symmetric] cong: map_cong)
  then have "sum_list (map f xs) = real (length xs) * c"
    by (simp add: sum_list_replicate)
  then show ?thesis using assms(2) by simp
qed

lemma all_entries_iff:
  "all_entries t c \<longleftrightarrow>
     (\<forall>i. length i = length (dims t) \<and> (\<forall>k<length (dims t). i ! k < dims t ! k)
          \<longrightarrow> entry t i = c)"
  by (auto simp: all_entries_def list_all_iff in_indices)

lemma nonempty_iff: "nonempty t \<longleftrightarrow> (\<forall>k<length (dims t). 0 < dims t ! k)"
  by (simp add: nonempty_def list_all_length)

lemma reduce_mean_constant:
  assumes ne: "nonempty t" and c: "all_entries t c" and A: "\<forall>k\<in>set A. k < length (dims t)"
  shows "\<exists>m. reduce_mean t A = Some m
            \<and> dims m = map (\<lambda>k. if k \<in> set A then 1 else dims t ! k) [0..<length (dims t)]
            \<and> nonempty m \<and> all_entries m c"
proof -
  let ?ds = "dims t"
  let ?m = "\<lparr>dims = map (\<lambda>k. if k \<in> set A then 1 else ?ds ! k) [0..<length ?ds],
             entry = (\<lambda>j. sum_list (map (entry t) (fibre ?ds A j))
                            / real (length (fibre ?ds A j)))\<rparr>"
  have pos: "\<forall>k\<in>set A. 0 < ?ds ! k"
    using ne A by (simp add: nonempty_iff)
  then have def: "reduce_mean t A = Some ?m"
    by (auto simp: reduce_mean_def list_ex_iff)
  have nem: "nonempty ?m"
    using ne by (simp add: nonempty_iff)
  have "entry ?m j = c"
    if j: "length j = length ?ds" "\<forall>k<length ?ds. j ! k < dims ?m ! k" for j
  proof -
    have "entry t i = c" if "i \<in> set (fibre ?ds A j)" for i
    proof -
      have "length i = length ?ds" using that by (simp add: in_fibre)
      moreover have "i ! k < ?ds ! k" if "k < length ?ds" for k
      proof (cases "k \<in> set A")
        case True
        with \<open>i \<in> set (fibre ?ds A j)\<close> that show ?thesis by (auto simp: in_fibre)
      next
        case False
        with \<open>i \<in> set (fibre ?ds A j)\<close> that have "i ! k = j ! k" by (auto simp: in_fibre)
        moreover from j(2) that False have "j ! k < ?ds ! k" by auto
        ultimately show ?thesis by simp
      qed
      ultimately show ?thesis using c by (simp add: all_entries_iff)
    qed
    then have "sum_list (map (entry t) (fibre ?ds A j)) / real (length (fibre ?ds A j)) = c"
      by (intro sum_list_all_equal fibre_nonempty pos) simp
    then show ?thesis by simp
  qed
  then have "all_entries ?m c"
    by (simp add: all_entries_iff)
  with def nem show ?thesis by simp
qed


lemma squared_difference_constant:
  assumes x: "all_entries x c" and m: "all_entries m c"
    and len: "length (dims m) = length (dims x)"
    and bc: "\<forall>k<length (dims x). dims m ! k = dims x ! k \<or> dims m ! k = 1"
  shows "\<exists>sd. squared_difference x m = Some sd \<and> dims sd = dims x \<and> all_entries sd 0"
proof -
  let ?ds = "dims x" and ?es = "dims m"
  let ?sd = "\<lparr>dims = ?ds,
              entry = (\<lambda>i. (entry x (broadcast_index ?ds i)
                             - entry m (broadcast_index ?es i))\<^sup>2)\<rparr>"
  have "list_all2 (\<lambda>d e. d = e \<or> d = 1 \<or> e = 1) ?ds ?es"
    using len bc by (auto simp: list_all2_conv_all_nth)
  moreover have "map2 (\<lambda>d e. if d = 1 then e else d) ?ds ?es = ?ds"
    using len bc by (intro nth_equalityI) auto
  ultimately have def: "squared_difference x m = Some ?sd"
    using len by (simp add: squared_difference_def broadcast_dims_def)
  have "entry ?sd i = 0" if i: "length i = length ?ds" "\<forall>k<length ?ds. i ! k < ?ds ! k" for i
  proof -
    have "entry x (broadcast_index ?ds i) = c"
      using x i by (auto simp: all_entries_iff broadcast_index_def)
    moreover have "entry m (broadcast_index ?es i) = c"
    proof -
      have "broadcast_index ?es i ! k < ?es ! k" if "k < length ?es" for k
        using that i bc len by (auto simp: broadcast_index_def)
      then show ?thesis
        using m i len by (simp add: all_entries_iff broadcast_index_def)
    qed
    ultimately show ?thesis by simp
  qed
  then have "all_entries ?sd 0"
    by (simp add: all_entries_iff)
  with def show ?thesis by simp
qed

lemma filter_upt_position:
  assumes "k < n" "P k"
  shows "length (filter P [0..<k]) < length (filter P [0..<n])"
    and "filter P [0..<n] ! length (filter P [0..<k]) = k"
proof -
  have "[0..<n] = [0..<k] @ k # [Suc k..<n]"
    using assms(1) upt_add_eq_append [of 0 k "n - k"] by (simp add: upt_conv_Cons)
  then have split: "filter P [0..<n] = filter P [0..<k] @ k # filter P [Suc k..<n]"
    using assms(2) by simp
  show "length (filter P [0..<k]) < length (filter P [0..<n])"
    unfolding split by simp
  show "filter P [0..<n] ! length (filter P [0..<k]) = k"
    unfolding split by (simp add: nth_append)
qed

lemma squeeze_constant:
  assumes ne: "nonempty t" and c: "all_entries t c"
    and A: "\<forall>k\<in>set A. k < length (dims t) \<and> dims t ! k = 1"
  shows "\<exists>r. squeeze t A = Some r \<and> nonempty r \<and> all_entries r c"
proof -
  let ?ds = "dims t"
  let ?n = "length ?ds"
  let ?P = "\<lambda>k. \<not> squeezed ?ds A k"
  let ?kept = "filter ?P [0..<?n]"
  let ?ix = "\<lambda>j. map (\<lambda>k. if squeezed ?ds A k then 0 else j ! length (filter ?P [0..<k]))
                    [0..<?n]"
  let ?r = "\<lparr>dims = map (\<lambda>k. ?ds ! k) ?kept, entry = (\<lambda>j. entry t (?ix j))\<rparr>"
  have def: "squeeze t A = Some ?r"
    using A by (auto simp: squeeze_def list_ex_iff)
  have pos: "0 < ?ds ! k" if "k < ?n" for k
    using ne that by (simp add: nonempty_iff)
  have ner: "nonempty ?r"
    unfolding nonempty_def by (auto simp: list_all_iff intro: pos)
  have "entry ?r j = c"
    if j: "length j = length ?kept" "\<forall>p<length ?kept. j ! p < ?ds ! (?kept ! p)" for j
  proof -
    have "?ix j ! k < ?ds ! k" if k: "k < ?n" for k
    proof (cases "squeezed ?ds A k")
      case True
      with k pos show ?thesis by simp
    next
      case False
      with k have "length (filter ?P [0..<k]) < length ?kept"
        and "?kept ! length (filter ?P [0..<k]) = k"
        by (simp_all add: filter_upt_position)
      with j(2) have "j ! length (filter ?P [0..<k]) < ?ds ! k"
        by metis
      with False k show ?thesis by simp
    qed
    then have "entry t (?ix j) = c"
      using c by (simp add: all_entries_iff)
    then show ?thesis by simp
  qed
  then have "all_entries ?r c"
    by (simp add: all_entries_iff)
  with def ner show ?thesis by blast
qed

lemma norm_axes_in_range:
  assumes "norm_axes n axes = Some A"
  shows "\<forall>k\<in>set A. k < n"
proof -
  from assms have A: "A = map (\<lambda>a. nat (if a < 0 then a + int n else a)) axes"
    and r: "list_all (\<lambda>a. - int n \<le> a \<and> a < int n) axes"
    by (auto simp: norm_axes_def Let_def split: if_splits)
  show ?thesis
    unfolding A using r by (auto simp: list_all_iff)
qed

lemma Moments_constant:
  assumes x: "tval \<tau> x = Some t" and ne: "nonempty t" and c: "all_entries t c"
    and ax: "norm_axes (length (dims t)) axes = Some A"
  shows "\<exists>tm tv. tval \<tau> (mean (Moments x axes keep_dims)) = Some tm
                \<and> tval \<tau> (variance (Moments x axes keep_dims)) = Some tv
                \<and> nonempty tm \<and> all_entries tm c \<and> nonempty tv \<and> all_entries tv 0"
proof -
  let ?n = "length (dims t)"
  let ?red = "map (\<lambda>k. if k \<in> set A then 1 else dims t ! k) [0..<?n]"
  have A: "\<forall>k\<in>set A. k < ?n"
    using ax by (rule norm_axes_in_range)
  obtain m where m: "reduce_mean t A = Some m" "dims m = ?red" "nonempty m" "all_entries m c"
    using reduce_mean_constant [OF ne c A] by blast
  have lm: "length (dims m) = ?n"
    using m(2) by simp
  have bc: "\<forall>k<?n. dims m ! k = dims t ! k \<or> dims m ! k = 1"
    using m(2) by simp
  obtain sd where sd: "squared_difference t m = Some sd" "dims sd = dims t" "all_entries sd 0"
    using squared_difference_constant [OF c m(4) lm bc] by blast
  have nsd: "nonempty sd"
    using ne sd(2) by (simp add: nonempty_def)
  have Asd: "\<forall>k\<in>set A. k < length (dims sd)"
    using A sd(2) by simp
  obtain v where v: "reduce_mean sd A = Some v" "dims v = ?red" "nonempty v" "all_entries v 0"
    using reduce_mean_constant [OF nsd sd(3) Asd] unfolding sd(2) by blast
  have tm: "tval \<tau> (ReduceMean x (ConstInts axes) True) = Some m"
    using x ax m(1) by simp
  have tv: "tval \<tau> (ReduceMean (SquaredDifference x (StopGradient
                (ReduceMean x (ConstInts axes) True))) (ConstInts axes) True) = Some v"
    using x ax m(1) sd(1,2) v(1) by simp
  show ?thesis
  proof (cases keep_dims)
    case True
    with tm tv m v show ?thesis by (simp add: Moments_def Let_def)
  next
    case False
    have "\<forall>k\<in>set A. k < length (dims m) \<and> dims m ! k = 1"
      using A m(2) by simp
    then obtain sm where sm: "squeeze m A = Some sm" "nonempty sm" "all_entries sm c"
      using squeeze_constant [OF m(3,4)] by blast
    have "\<forall>k\<in>set A. k < length (dims v) \<and> dims v ! k = 1"
      using A v(2) by simp
    then obtain sv where sv: "squeeze v A = Some sv" "nonempty sv" "all_entries sv 0"
      using squeeze_constant [OF v(3,4)] by blast
    have "tval \<tau> (Squeeze (ReduceMean x (ConstInts axes) True) axes) = Some sm"
      using tm ax lm sm(1) by simp
    moreover have "tval \<tau> (Squeeze (ReduceMean (SquaredDifference x (StopGradient
                (ReduceMean x (ConstInts axes) True))) (ConstInts axes) True) axes) = Some sv"
      using tv ax v(2) sv(1) by simp
    ultimately show ?thesis
      using False sm sv by (simp add: Moments_def Let_def)
  qed
qed

text \<open>
  C9: for every x, axes and keep\_dims, Moments takes mean = ReduceMean(x, axes) and
  variance = ReduceMean(SquaredDifference(x, StopGradient(mean)), axes), both reductions
  keeping the reduced dimensions; with keep\_dims = false both results are squeezed
  along the axes after the reduction. On a tensor that has at least one entry and whose
  entries all equal c, with axes the reduction accepts, every entry of the mean is c and
  every entry of the variance is 0, with keep\_dims true and false.
\<close>

theorem Moments_mean_and_variance:
  "Moments x axes True
     = \<lparr>mean = ReduceMean x (ConstInts axes) True,
        variance = ReduceMean (SquaredDifference x
                      (StopGradient (ReduceMean x (ConstInts axes) True)))
                     (ConstInts axes) True\<rparr>
   \<and> Moments x axes False
     = \<lparr>mean = Squeeze (mean (Moments x axes True)) axes,
        variance = Squeeze (variance (Moments x axes True)) axes\<rparr>
   \<and> (tval \<tau> x = Some t \<and> nonempty t \<and> all_entries t c
        \<and> norm_axes (length (dims t)) axes \<noteq> None \<longrightarrow>
      (\<exists>tm tv. tval \<tau> (mean (Moments x axes keep_dims)) = Some tm
               \<and> tval \<tau> (variance (Moments x axes keep_dims)) = Some tv
               \<and> nonempty tm \<and> all_entries tm c \<and> nonempty tv \<and> all_entries tv 0))"
proof -
  have "Moments x axes True
     = \<lparr>mean = ReduceMean x (ConstInts axes) True,
        variance = ReduceMean (SquaredDifference x
                      (StopGradient (ReduceMean x (ConstInts axes) True)))
                     (ConstInts axes) True\<rparr>"
    by (simp add: Moments_def Let_def)
  moreover have "Moments x axes False
     = \<lparr>mean = Squeeze (mean (Moments x axes True)) axes,
        variance = Squeeze (variance (Moments x axes True)) axes\<rparr>"
    by (simp add: Moments_def Let_def)
  moreover have "\<exists>tm tv. tval \<tau> (mean (Moments x axes keep_dims)) = Some tm
               \<and> tval \<tau> (variance (Moments x axes keep_dims)) = Some tv
               \<and> nonempty tm \<and> all_entries tm c \<and> nonempty tv \<and> all_entries tv 0"
    if "tval \<tau> x = Some t" "nonempty t" "all_entries t c"
      "norm_axes (length (dims t)) axes \<noteq> None"
  proof -
    from that(4) obtain A where "norm_axes (length (dims t)) axes = Some A" by blast
    with that(1-3) show ?thesis by (rule Moments_constant)
  qed
  ultimately show ?thesis by blast
qed

theorem Moments_mean_and_variance_witness:
  "tval (\<lambda>n. Some \<lparr>dims = [2, 3], entry = (\<lambda>i. 5)\<rparr>) (Handle ''x'')
     = Some \<lparr>dims = [2, 3], entry = (\<lambda>i. 5)\<rparr>
   \<and> nonempty \<lparr>dims = [2, 3], entry = (\<lambda>i. 5)\<rparr>
   \<and> all_entries \<lparr>dims = [2, 3], entry = (\<lambda>i. 5)\<rparr> 5
   \<and> norm_axes (length (dims \<lparr>dims = [2, 3], entry = (\<lambda>i. 5)\<rparr>)) [0] \<noteq> None
   \<and> (\<exists>tm tv. tval (\<lambda>n. Some \<lparr>dims = [2, 3], entry = (\<lambda>i. 5)\<rparr>)
                  (mean (Moments (Handle ''x'') [0] False)) = Some tm
             \<and> tval (\<lambda>n. Some \<lparr>dims = [2, 3], entry = (\<lambda>i. 5)\<rparr>)
                  (variance (Moments (Handle ''x'') [0] False)) = Some tv
             \<and> nonempty tm \<and> all_entries tm 5 \<and> nonempty tv \<and> all_entries tv 0)"
proof -
  let ?T = "\<lparr>dims = [2, 3], entry = (\<lambda>i. 5)\<rparr>"
  let ?\<tau> = "\<lambda>n :: node. Some ?T"
  have h1: "tval ?\<tau> (Handle ''x'') = Some ?T"
    by simp
  have h2: "nonempty ?T"
    by (simp add: nonempty_def)
  have h3: "all_entries ?T 5"
    by (simp add: all_entries_def list_all_iff)
  have h4: "norm_axes (length (dims ?T)) [0] \<noteq> None"
    by (simp add: norm_axes_def)
  from h1 h2 h3 h4
    Moments_mean_and_variance
      [where \<tau> = ?\<tau> and x = "Handle ''x''" and t = ?T and c = 5 and axes = "[0]"
         and keep_dims = False]
  show ?thesis by blast
qed

subsection \<open>Generator\<close>

text \<open>
  C10: for every batch size and training flag, Generator::Build emits a standard-normal
  draw of shape [batch\_size, NOISE\_DIM], the matrix product with w1, the reference
  normalization with epsilon 1/1000 (on the moments over axis 0 when training, on the
  moving statistics otherwise), LeakyRelu with alpha 3/10, a reshape to
  [batch\_size, 7, 7, 256], then three Conv2DBackpropInput nodes with padding SAME:
  strides 1 to [batch\_size, 7, 7, 128] and strides 2 to [batch\_size, 14, 14, 64], each
  followed by the fused normalization with epsilon 1/1000 and LeakyRelu, and strides 2
  to [batch\_size, 28, 28, NUM\_CHANNELS] with nothing after it. That last node, named
  generator, is the result, and its shape is [batch\_size, 28, 28, NUM\_CHANNELS]. When
  training, the six moving-statistics updates of the three normalizations are
  registered, in order; otherwise the scope is left as it was.
\<close>

theorem Generator_Build_pipeline:
  "(let noise = RandomNormal (ConstInts [batch_size, NOISE_DIM c]) DT_FLOAT;
        dense = MatMul noise (w1 G);
        bn = batchnorm_op G;
        bn1 = batchnorm1_op G;
        bn2 = batchnorm2_op G;
        epsilon = ConstVec [1 / 1000];
        reduced = ReduceMean dense (ConstInts [0]) True;
        batch_mean = Squeeze reduced [0];
        batch_variance =
          Squeeze (ReduceMean (SquaredDifference dense (StopGradient reduced))
                     (ConstInts [0]) True) [0];
        mean0 = (if training then batch_mean else moving_mean bn);
        variance0 = (if training then batch_variance else moving_variance bn);
        inv = Multiply (Rsqrt (Add variance0 epsilon)) (gamma bn);
        batchnorm = Add (Multiply dense (Cast inv DT_FLOAT))
                        (Cast (Sub (beta bn) (Multiply mean0 inv)) DT_FLOAT);
        reshape1 = Reshape (LeakyRelu batchnorm (3 / 10)) (ConstInts [batch_size, 7, 7, 256]);
        deconv1 = Conv2DBackpropInput (ConstInts [batch_size, 7, 7, 128]) (filter0 G) reshape1
                    [1, 1, 1, 1] ''SAME'';
        fused1 = (\<lambda>out. if training
                        then FusedBatchNorm out deconv1 (gamma bn1) (beta bn1) (ConstVec [])
                               (ConstVec []) (1 / 1000) True
                        else FusedBatchNorm out deconv1 (gamma bn1) (beta bn1)
                               (moving_mean bn1) (moving_variance bn1) (1 / 1000) False);
        deconv2 = Conv2DBackpropInput (ConstInts [batch_size, 14, 14, 64]) (filter2 G)
                    (LeakyRelu (fused1 Out_y) (3 / 10)) [1, 2, 2, 1] ''SAME'';
        fused2 = (\<lambda>out. if training
                        then FusedBatchNorm out deconv2 (gamma bn2) (beta bn2) (ConstVec [])
                               (ConstVec []) (1 / 1000) True
                        else FusedBatchNorm out deconv2 (gamma bn2) (beta bn2)
                               (moving_mean bn2) (moving_variance bn2) (1 / 1000) False);
        deconv3 = Conv2DBackpropInput (ConstInts [batch_size, 28, 28, NUM_CHANNELS c])
                    (filter3 G) (LeakyRelu (fused2 Out_y) (3 / 10)) [1, 2, 2, 1] ''SAME'';
        upd = (\<lambda>name moving batch.
                 Named name (AssignSub moving
                   (Multiply (Sub moving batch) (ConstScalar (1 - MOMENTUM c)))));
        updates =
          [upd ''update_moving_mean'' (moving_mean bn) batch_mean,
           upd ''update_moving_variance'' (moving_variance bn) batch_variance,
           upd ''fused_update_moving_mean'' (moving_mean bn1) (fused1 Out_batch_mean),
           upd ''fused_update_moving_variance'' (moving_variance bn1)
             (fused1 Out_batch_variance),
           upd ''fused_update_moving_mean'' (moving_mean bn2) (fused2 Out_batch_mean),
           upd ''fused_update_moving_variance'' (moving_variance bn2)
             (fused2 Out_batch_variance)]
    in Generator_Build c G s batch_size training
         = (Named ''generator'' deconv3,
            if training then s\<lparr>update_ops := update_ops s @ updates\<rparr> else s)
     \<and> output_shape deconv1 = Some [batch_size, 7, 7, 128]
     \<and> output_shape deconv2 = Some [batch_size, 14, 14, 64]
     \<and> output_shape (fst (Generator_Build c G s batch_size training))
         = Some [batch_size, 28, 28, NUM_CHANNELS c])"
proof (cases training)
  case True
  then show ?thesis
    by (simp add: Generator_Build_def Conv2DTranspose_def TFBatchNormalization_Build_def
        TFFusedBatchNorm_Build_def BatchNormalization_def Moments_def AddUpdateOp_def
        Let_def)
next
  case False
  then show ?thesis
    by (simp add: Generator_Build_def Conv2DTranspose_def TFBatchNormalization_Build_def
        TFFusedBatchNorm_Build_def BatchNormalization_def Let_def)
qed

end
